theory Spec2Isabelle
  imports Main "HOL-Library.List_Lexorder" "HOL-Library.Multiset"
begin

section \<open>Values shared by the modules\<close>

text \<open>
  A JavaScript string is a sequence of UTF-16 code units; \<open>length\<close> is the
  \<^verbatim>\<open>.length\<close> of the source. \<open>of_ascii\<close> writes an ASCII literal.
\<close>

type_synonym jsstring = "nat list"

definition of_ascii :: "string \<Rightarrow> jsstring" where
  "of_ascii s = map of_char s"

text \<open>
  An error object of the driver or of the runtime: \<^verbatim>\<open>error.number\<close> (absent on
  errors that are not SQL Server errors) and \<^verbatim>\<open>error.message\<close>.
\<close>

record js_error =
  number :: "int option"
  message :: string

text \<open>
  The pool handle that \<^verbatim>\<open>sql.connect\<close> resolves to. \<open>handle\<close> tells two handles
  apart; \<open>connected\<close> is the \<^verbatim>\<open>pool.connected\<close> flag, which the driver clears
  when the connection drops.
\<close>

record ConnectionPool =
  handle :: nat
  connected :: bool

text \<open>What the program does to the outside, in order.\<close>

datatype log_line =
    IntentoFallo nat nat string
  | ConexionEstablecida
  | TablaVerificada
  | ErrorAlIniciar string
  | ErrorAlRegistrar string
  | ErrorAlObtener string

datatype event =
    SqlConnect
  | ConsoleLog log_line
  | SetTimeout nat
  | AppListen
  | Query

text \<open>
  The outside of the program: the outcome of the \<open>n\<close>-th call of
  \<^verbatim>\<open>sql.connect(config)\<close> (counted from 0) and \<^verbatim>\<open>process.env.NODE_ENV\<close>.
\<close>

record world =
  sql_connect :: "nat \<Rightarrow> js_error + ConnectionPool"
  NODE_ENV :: "string option"

text \<open>
  A row of the table \<^verbatim>\<open>usuarios\<close>, as the CREATE TABLE of the server declares
  it. The type of \<open>fecha_registro\<close> is a parameter: a \<open>datetime\<close> in the table,
  a string in the rows the listing query returns. The insert of this program never
  names the column, so its DEFAULT GETDATE() always fills it.
\<close>

record datetime =
  year :: nat
  month :: nat
  day :: nat
  hour :: nat
  minute :: nat
  second :: nat
  millisecond :: nat

record 'f usuario =
  id_usuario :: int
  nombre :: jsstring
  apellido :: jsstring
  email :: jsstring
  telefono :: "jsstring option"
  pais :: "jsstring option"
  fecha_registro :: 'f

text \<open>
  The state: the module variable \<^verbatim>\<open>pool\<close> of the connection module (\<open>None\<close> is
  \<^verbatim>\<open>null\<close>), the number of \<^verbatim>\<open>sql.connect\<close> calls made so far, the table
  (\<open>None\<close> until it is created), the last identity value given out, and the
  events so far.
\<close>

record state =
  pool :: "ConnectionPool option"
  connects :: nat
  usuarios :: "datetime usuario list option"
  identity :: int
  trace :: "event list"

section \<open>The connection module\<close>

subsection \<open>src/db.js\<close>

text \<open>
  \<^verbatim>\<open>if (!pool) { pool = await sql.connect(config); } return pool;\<close>
  A rejected \<^verbatim>\<open>sql.connect\<close> leaves \<^verbatim>\<open>pool\<close> as it was and is thrown to the
  caller (\<open>Inl\<close>).
\<close>

definition getPool_db :: "world \<Rightarrow> state \<Rightarrow> (js_error + ConnectionPool option) \<times> state" where
  "getPool_db w s =
     (case pool s of
        Some p \<Rightarrow> (Inr (Some p), s)
      | None \<Rightarrow>
          (let s1 = s\<lparr>connects := connects s + 1, trace := trace s @ [SqlConnect]\<rparr> in
           case sql_connect w (connects s) of
             Inr p \<Rightarrow> (Inr (Some p), s1\<lparr>pool := Some p\<rparr>)
           | Inl err \<Rightarrow> (Inl err, s1)))"

subsection \<open>src/unnamed/part_000\<close>

definition maxRetries :: nat where
  "maxRetries = 3"

text \<open>
  The \<^verbatim>\<open>for (let i = 0; i < maxRetries; i++)\<close> loop, entered at \<open>i\<close>. The line
  after the loop, \<^verbatim>\<open>return pool\<close>, is the last branch.
\<close>

function getPool_loop :: "world \<Rightarrow> nat \<Rightarrow> state \<Rightarrow> (js_error + ConnectionPool option) \<times> state" where
  "getPool_loop w i s =
     (if i < maxRetries then
        (let s1 = s\<lparr>connects := connects s + 1, trace := trace s @ [SqlConnect]\<rparr> in
         case sql_connect w (connects s) of
           Inr p \<Rightarrow> (Inr (Some p), s1\<lparr>pool := Some p\<rparr>)
         | Inl err \<Rightarrow>
             (let s2 = s1\<lparr>pool := None,
                          trace := trace s1 @ [ConsoleLog (IntentoFallo (i + 1) maxRetries (message err))]\<rparr> in
              if i < maxRetries - 1
              then getPool_loop w (i + 1) (s2\<lparr>trace := trace s2 @ [SetTimeout 3000]\<rparr>)
              else (Inl err, s2)))
      else (Inr (pool s), s))"
  by pat_completeness auto
termination
  by (relation "measure (\<lambda>(w, i, s). maxRetries - i)") auto

declare getPool_loop.simps [simp del]

text \<open>
  \<^verbatim>\<open>if (pool && !pool.connected) { pool = null; }\<close>, then the loop when
  \<^verbatim>\<open>!pool\<close>, else \<^verbatim>\<open>return pool\<close>.
\<close>

definition discard_stale :: "state \<Rightarrow> state" where
  "discard_stale s =
     (case pool s of
        Some p \<Rightarrow> (if \<not> connected p then s\<lparr>pool := None\<rparr> else s)
      | None \<Rightarrow> s)"

definition getPool :: "world \<Rightarrow> state \<Rightarrow> (js_error + ConnectionPool option) \<times> state" where
  "getPool w s =
     (let s0 = discard_stale s in
      case pool s0 of
        None \<Rightarrow> getPool_loop w 0 s0
      | Some p \<Rightarrow> (Inr (Some p), s0))"

text \<open>
  The callers \<^verbatim>\<open>require\<close> the connection module by a relative path; the
  repository holds the two modules above, so a caller is modelled over either.
\<close>

datatype db_module = Db_js | Part_000

fun getPool_of :: "db_module \<Rightarrow> world \<Rightarrow> state \<Rightarrow> (js_error + ConnectionPool option) \<times> state" where
  "getPool_of Db_js = getPool_db"
| "getPool_of Part_000 = getPool"

section \<open>The database engine\<close>

text \<open>
  What SQL Server does with the three statements of the source, on the schema of the
  CREATE TABLE in the server module: \<^verbatim>\<open>id INT IDENTITY(1,1) PRIMARY KEY\<close>,
  \<^verbatim>\<open>email NVARCHAR(255) NOT NULL UNIQUE\<close>,
  \<^verbatim>\<open>fecha_registro DATETIME DEFAULT GETDATE()\<close>. A request on a handle that
  is not connected is rejected by the driver; a statement on a missing table is
  error 208; a second row with an e-mail already in the table is error 2627, and
  the identity value it was given is not reused. Two e-mails are the same when
  they are the same string (the collation of the column is not modelled), and a
  value longer than its column is not modelled either.
\<close>

definition TypeError :: js_error where
  "TypeError = \<lparr>number = None, message = ''Cannot read properties of null''\<rparr>"

definition ConnectionError :: js_error where
  "ConnectionError = \<lparr>number = None, message = ''Connection is closed.''\<rparr>"

definition RequestError :: "int \<Rightarrow> js_error" where
  "RequestError n = \<lparr>number = Some n, message = ''RequestError''\<rparr>"

definition create_table :: "ConnectionPool \<Rightarrow> state \<Rightarrow> (js_error + unit) \<times> state" where
  "create_table p s =
     (let s1 = s\<lparr>trace := trace s @ [Query]\<rparr> in
      if \<not> connected p then (Inl ConnectionError, s1)
      else case usuarios s1 of
             None \<Rightarrow> (Inr (), s1\<lparr>usuarios := Some []\<rparr>)
           | Some rows \<Rightarrow> (Inr (), s1))"

record insert_params =
  p_nombre :: jsstring
  p_apellido :: jsstring
  p_email :: jsstring
  p_telefono :: "jsstring option"
  p_pais :: "jsstring option"

definition insert_usuario ::
  "ConnectionPool \<Rightarrow> datetime \<Rightarrow> insert_params \<Rightarrow> state \<Rightarrow> (js_error + int) \<times> state" where
  "insert_usuario p now ps s =
     (let s1 = s\<lparr>trace := trace s @ [Query]\<rparr> in
      if \<not> connected p then (Inl ConnectionError, s1)
      else case usuarios s1 of
             None \<Rightarrow> (Inl (RequestError 208), s1)
           | Some rows \<Rightarrow>
               (let n = identity s1 + 1 in
                if p_email ps \<in> set (map email rows)
                then (Inl (RequestError 2627), s1\<lparr>identity := n\<rparr>)
                else (Inr n,
                      s1\<lparr>usuarios := Some (rows @
                            [\<lparr>id_usuario = n, nombre = p_nombre ps, apellido = p_apellido ps,
                              email = p_email ps, telefono = p_telefono ps, pais = p_pais ps,
                              fecha_registro = now\<rparr>]),
                          identity := n\<rparr>)))"

text \<open>
  \<^verbatim>\<open>FORMAT(fecha_registro, 'dd/MM/yyyy HH:mm')\<close>: two digits of the day, of the
  month, four of the year, two of the hour (0 to 23) and of the minute.
\<close>

definition digits2 :: "nat \<Rightarrow> jsstring" where
  "digits2 n = [48 + n div 10 mod 10, 48 + n mod 10]"

definition digits4 :: "nat \<Rightarrow> jsstring" where
  "digits4 n = [48 + n div 1000 mod 10, 48 + n div 100 mod 10, 48 + n div 10 mod 10, 48 + n mod 10]"

definition FORMAT :: "datetime \<Rightarrow> jsstring" where
  "FORMAT d = digits2 (day d) @ of_ascii ''/'' @ digits2 (month d) @ of_ascii ''/'' @ digits4 (year d)
              @ of_ascii '' '' @ digits2 (hour d) @ of_ascii '':'' @ digits2 (minute d)"

definition select_row :: "datetime usuario \<Rightarrow> jsstring usuario" where
  "select_row r =
     \<lparr>id_usuario = id_usuario r, nombre = nombre r, apellido = apellido r, email = email r,
      telefono = telefono r, pais = pais r, fecha_registro = FORMAT (fecha_registro r)\<rparr>"

text \<open>
  \<^verbatim>\<open>SELECT ..., FORMAT(fecha_registro, ...) as fecha_registro FROM usuarios
  ORDER BY fecha_registro DESC\<close>. A name in ORDER BY that is a column alias of the
  select list denotes that output column, so the sort key is the formatted string,
  compared character by character. The order among rows of equal key is not fixed
  by the engine; the model takes the one of \<open>sort_key\<close>, reversed.
\<close>

definition order_by_desc :: "jsstring usuario list \<Rightarrow> jsstring usuario list" where
  "order_by_desc rows = rev (sort_key fecha_registro rows)"

definition select_usuarios :: "ConnectionPool \<Rightarrow> state \<Rightarrow> (js_error + jsstring usuario list) \<times> state" where
  "select_usuarios p s =
     (let s1 = s\<lparr>trace := trace s @ [Query]\<rparr> in
      if \<not> connected p then (Inl ConnectionError, s1)
      else case usuarios s1 of
             None \<Rightarrow> (Inl (RequestError 208), s1)
           | Some rows \<Rightarrow> (Inr (order_by_desc (map select_row rows)), s1))"

section \<open>src/routes/users.js\<close>

subsection \<open>The validation rules\<close>

text \<open>
  The functions of the validation and sanitisation libraries that the rules call.
  \<open>trim\<close>, the regular expressions and \<open>inHTMLData\<close> are written out below;
  the e-mail syntax check, the e-mail normalisation and the length that
  \<^verbatim>\<open>isLength\<close> measures are parameters.
\<close>

record lib =
  isEmail :: "jsstring \<Rightarrow> bool"
  normalizeEmail :: "jsstring \<Rightarrow> jsstring"
  str_len :: "jsstring \<Rightarrow> nat"

text \<open>The class \<^verbatim>\<open>\s\<close> of a regular expression, which is also what \<open>trim\<close> strips.\<close>

definition js_space :: "nat \<Rightarrow> bool" where
  "js_space c \<longleftrightarrow>
     c \<in> set [9, 10, 11, 12, 13, 32, 160, 5760, 8232, 8233, 8239, 8287, 12288, 65279]
     \<or> (8192 \<le> c \<and> c \<le> 8202)"

definition trim :: "jsstring \<Rightarrow> jsstring" where
  "trim v = rev (dropWhile js_space (rev (dropWhile js_space v)))"

text \<open>
  The class \<^verbatim>\<open>[a-zA-Z...\s]\<close> of the rules for nombre, apellido and pais: the
  ASCII letters, the fourteen accented letters of the source (lower and upper case
  a, e, i, o, u with acute accent, n with tilde, u with diaeresis) and \<^verbatim>\<open>\s\<close>.
  The expression is anchored and ends in \<^verbatim>\<open>+\<close>.
\<close>

definition letra :: "nat \<Rightarrow> bool" where
  "letra c \<longleftrightarrow>
     (97 \<le> c \<and> c \<le> 122) \<or> (65 \<le> c \<and> c \<le> 90)
     \<or> c \<in> set [225, 233, 237, 243, 250, 193, 201, 205, 211, 218, 241, 209, 252, 220]
     \<or> js_space c"

definition solo_letras :: "jsstring \<Rightarrow> bool" where
  "solo_letras v \<longleftrightarrow> v \<noteq> [] \<and> list_all letra v"

text \<open>The expression of telefono: 7 to 20 characters out of digits, \<^verbatim>\<open>\s\<close>, - + ( ).\<close>

definition car_telefono :: "nat \<Rightarrow> bool" where
  "car_telefono c \<longleftrightarrow> (48 \<le> c \<and> c \<le> 57) \<or> js_space c \<or> c \<in> set [45, 43, 40, 41]"

definition patron_telefono :: "jsstring \<Rightarrow> bool" where
  "patron_telefono v \<longleftrightarrow> 7 \<le> length v \<and> length v \<le> 20 \<and> list_all car_telefono v"

definition isLength :: "lib \<Rightarrow> nat \<Rightarrow> nat \<Rightarrow> jsstring \<Rightarrow> bool" where
  "isLength L mn mx v \<longleftrightarrow> mn \<le> str_len L v \<and> str_len L v \<le> mx"

text \<open>\<^verbatim>\<open>xssFilters.inHTMLData\<close>: every \<^verbatim>\<open><\<close> becomes \<^verbatim>\<open>&lt;\<close>.\<close>

definition inHTMLData :: "jsstring \<Rightarrow> jsstring" where
  "inHTMLData v = concat (map (\<lambda>c. if c = 60 then of_ascii ''&lt;'' else [c]) v)"

text \<open>
  \<^verbatim>\<open>req.body\<close>: the five fields, each absent (\<open>None\<close>) or a string. The
  messages of \<^verbatim>\<open>withMessage\<close>, in the order of the source.
\<close>

datatype campo = Nombre | Apellido | Email | Telefono | Pais

type_synonym body = "campo \<Rightarrow> jsstring option"

datatype mensaje =
    NombreLongitud | NombreLetras
  | ApellidoLongitud | ApellidoLetras
  | EmailInvalido | EmailLongitud
  | TelefonoInvalido
  | PaisLongitud | PaisLetras

definition toString :: "jsstring option \<Rightarrow> jsstring" where
  "toString v = (case v of None \<Rightarrow> [] | Some x \<Rightarrow> x)"

definition falsy :: "jsstring option \<Rightarrow> bool" where
  "falsy v = (case v of None \<Rightarrow> True | Some x \<Rightarrow> x = [])"

text \<open>
  A chain runs its items in order: a sanitiser replaces the field in
  \<^verbatim>\<open>req.body\<close> (an absent field is read as the empty string), a validator that
  fails adds the message that follows it, and the later items still run. In a
  chain marked \<^verbatim>\<open>optional({ checkFalsy: true })\<close> an item is skipped when the
  field, as it is at that point, is falsy: the whole chain on a field that is absent
  or empty, the validators on a field that \<open>trim\<close> has emptied.
\<close>

definition check :: "bool \<Rightarrow> mensaje \<Rightarrow> mensaje list" where
  "check ok m = (if ok then [] else [m])"

definition validar_nombre :: "lib \<Rightarrow> body \<Rightarrow> body \<times> mensaje list" where
  "validar_nombre L b =
     (let v = trim (toString (b Nombre)) in
      (b(Nombre \<mapsto> v), check (isLength L 2 100 v) NombreLongitud @ check (solo_letras v) NombreLetras))"

definition validar_apellido :: "lib \<Rightarrow> body \<Rightarrow> body \<times> mensaje list" where
  "validar_apellido L b =
     (let v = trim (toString (b Apellido)) in
      (b(Apellido \<mapsto> v), check (isLength L 2 100 v) ApellidoLongitud @ check (solo_letras v) ApellidoLetras))"

definition validar_email :: "lib \<Rightarrow> body \<Rightarrow> body \<times> mensaje list" where
  "validar_email L b =
     (let v = trim (toString (b Email)); v' = normalizeEmail L v in
      (b(Email \<mapsto> v'), check (isEmail L v) EmailInvalido @ check (isLength L 0 255 v') EmailLongitud))"

definition validar_telefono :: "lib \<Rightarrow> body \<Rightarrow> body \<times> mensaje list" where
  "validar_telefono L b =
     (if falsy (b Telefono) then (b, [])
      else (let v = trim (toString (b Telefono)) in
            (b(Telefono \<mapsto> v),
             if falsy (Some v) then [] else check (patron_telefono v) TelefonoInvalido)))"

definition validar_pais :: "lib \<Rightarrow> body \<Rightarrow> body \<times> mensaje list" where
  "validar_pais L b =
     (if falsy (b Pais) then (b, [])
      else (let v = trim (toString (b Pais)) in
            (b(Pais \<mapsto> v),
             if falsy (Some v) then []
             else check (isLength L 0 100 v) PaisLongitud @ check (solo_letras v) PaisLetras)))"

definition validacionRegistro :: "lib \<Rightarrow> body \<Rightarrow> body \<times> mensaje list" where
  "validacionRegistro L b =
     (let (b1, e1) = validar_nombre L b;
          (b2, e2) = validar_apellido L b1;
          (b3, e3) = validar_email L b2;
          (b4, e4) = validar_telefono L b3;
          (b5, e5) = validar_pais L b4
      in (b5, e1 @ e2 @ e3 @ e4 @ e5))"

subsection \<open>The responses\<close>

text \<open>
  The JSON bodies of the source, one constructor each:
  the validation failure with its \<^verbatim>\<open>errors\<close>; the created user with
  \<^verbatim>\<open>data: { id, nombre, apellido, email }\<close>; the duplicate e-mail message; the
  server error of the registration; the listing with \<^verbatim>\<open>count\<close> and
  \<^verbatim>\<open>data\<close>; the server error of the listing.
\<close>

datatype json_body =
    ErrorDeValidacion "mensaje list"
  | UsuarioRegistrado int jsstring jsstring jsstring
  | CorreoYaRegistrado
  | ErrorInternoIntente
  | Listado nat "jsstring usuario list"
  | ErrorInterno

record response =
  status :: nat
  json :: json_body

subsection \<open>POST /api/users\<close>

text \<open>The \<^verbatim>\<open>catch\<close> block of the registration.\<close>

definition post_catch :: "js_error \<Rightarrow> state \<Rightarrow> response \<times> state" where
  "post_catch error s =
     (if number error = Some 2627 \<or> number error = Some 2601
      then (\<lparr>status = 409, json = CorreoYaRegistrado\<rparr>, s)
      else (\<lparr>status = 500, json = ErrorInternoIntente\<rparr>,
            s\<lparr>trace := trace s @ [ConsoleLog (ErrorAlRegistrar (message error))]\<rparr>))"

text \<open>
  The five sanitised values. \<^verbatim>\<open>.trim()\<close> on a field that is absent throws a
  TypeError (\<open>None\<close>); an optional field that is falsy becomes \<^verbatim>\<open>null\<close>.
\<close>

definition opcional :: "jsstring option \<Rightarrow> jsstring option" where
  "opcional v = (if falsy v then None else Some (inHTMLData (trim (toString v))))"

definition sanitizar :: "body \<Rightarrow> insert_params option" where
  "sanitizar b =
     (case (b Nombre, b Apellido, b Email) of
        (Some n, Some a, Some e) \<Rightarrow>
          Some \<lparr>p_nombre = inHTMLData (trim n), p_apellido = inHTMLData (trim a),
                p_email = inHTMLData (trim e),
                p_telefono = opcional (b Telefono), p_pais = opcional (b Pais)\<rparr>
      | _ \<Rightarrow> None)"

definition post_users ::
  "lib \<Rightarrow> db_module \<Rightarrow> world \<Rightarrow> datetime \<Rightarrow> state \<Rightarrow> body \<Rightarrow> response \<times> state" where
  "post_users L m w now s b =
     (let (b', errors) = validacionRegistro L b in
      if errors \<noteq> [] then (\<lparr>status = 400, json = ErrorDeValidacion errors\<rparr>, s)
      else case sanitizar b' of
             None \<Rightarrow> post_catch TypeError s
           | Some ps \<Rightarrow>
               (case getPool_of m w s of
                  (Inl error, s1) \<Rightarrow> post_catch error s1
                | (Inr None, s1) \<Rightarrow> post_catch TypeError s1
                | (Inr (Some p), s1) \<Rightarrow>
                    (case insert_usuario p now ps s1 of
                       (Inl error, s2) \<Rightarrow> post_catch error s2
                     | (Inr n, s2) \<Rightarrow>
                         (\<lparr>status = 201,
                           json = UsuarioRegistrado n (p_nombre ps) (p_apellido ps) (p_email ps)\<rparr>, s2))))"

subsection \<open>GET /api/users\<close>

definition get_catch :: "js_error \<Rightarrow> state \<Rightarrow> response \<times> state" where
  "get_catch error s =
     (\<lparr>status = 500, json = ErrorInterno\<rparr>,
      s\<lparr>trace := trace s @ [ConsoleLog (ErrorAlObtener (message error))]\<rparr>)"

definition get_users :: "db_module \<Rightarrow> world \<Rightarrow> state \<Rightarrow> response \<times> state" where
  "get_users m w s =
     (case getPool_of m w s of
        (Inl error, s1) \<Rightarrow> get_catch error s1
      | (Inr None, s1) \<Rightarrow> get_catch TypeError s1
      | (Inr (Some p), s1) \<Rightarrow>
          (case select_usuarios p s1 of
             (Inl error, s2) \<Rightarrow> get_catch error s2
           | (Inr recordset, s2) \<Rightarrow>
               (\<lparr>status = 200, json = Listado (length recordset) recordset\<rparr>, s2)))"

section \<open>src/unnamed/part_001: startServer\<close>

text \<open>
  The statements of the \<^verbatim>\<open>try\<close> block before \<^verbatim>\<open>app.listen\<close>: the first
  \<^verbatim>\<open>await getPool()\<close>, whose value is dropped, the log line, the second
  \<^verbatim>\<open>getPool\<close>, the CREATE TABLE and the second log line. \<open>Inl\<close> is the error
  that reaches the \<^verbatim>\<open>catch\<close> block.
\<close>

definition inicializar :: "db_module \<Rightarrow> world \<Rightarrow> state \<Rightarrow> (js_error + unit) \<times> state" where
  "inicializar m w s =
     (case getPool_of m w s of
        (Inl error, s1) \<Rightarrow> (Inl error, s1)
      | (Inr _, s1) \<Rightarrow>
          (let s2 = s1\<lparr>trace := trace s1 @ [ConsoleLog ConexionEstablecida]\<rparr> in
           case getPool_of m w s2 of
             (Inl error, s3) \<Rightarrow> (Inl error, s3)
           | (Inr None, s3) \<Rightarrow> (Inl TypeError, s3)
           | (Inr (Some p), s3) \<Rightarrow>
               (case create_table p s3 of
                  (Inl error, s4) \<Rightarrow> (Inl error, s4)
                | (Inr _, s4) \<Rightarrow> (Inr (), s4\<lparr>trace := trace s4 @ [ConsoleLog TablaVerificada]\<rparr>))))"

text \<open>
  \<^verbatim>\<open>app.listen\<close> is the event \<open>AppListen\<close>; the lines its callback prints once
  the socket is open are left out.
\<close>

definition startServer :: "db_module \<Rightarrow> world \<Rightarrow> state \<Rightarrow> state" where
  "startServer m w s =
     (case inicializar m w s of
        (Inr _, s1) \<Rightarrow> s1\<lparr>trace := trace s1 @ [AppListen]\<rparr>
      | (Inl error, s1) \<Rightarrow>
          (let s2 = s1\<lparr>trace := trace s1 @ [ConsoleLog (ErrorAlIniciar (message error))]\<rparr> in
           if NODE_ENV w = Some ''production''
           then s2\<lparr>trace := trace s2 @ [AppListen]\<rparr>
           else s2))"

section \<open>Notions the claims are stated with\<close>

text \<open>
  The order of time on \<open>datetime\<close>, for the claim that the listing is ordered by
  registration time: the fields from the year down to the millisecond, compared in
  that order.
\<close>

definition instant :: "datetime \<Rightarrow> nat list" where
  "instant d = [year d, month d, day d, hour d, minute d, second d, millisecond d]"

definition later_than :: "datetime \<Rightarrow> datetime \<Rightarrow> bool" where
  "later_than a b \<longleftrightarrow> instant b < instant a"

section \<open>Concrete inputs\<close>

text \<open>
  A handle whose connection has dropped and a live one; a server that accepts every
  connection, one that refuses every connection, and the latter in production mode.
\<close>

definition stale_handle :: ConnectionPool where
  "stale_handle = \<lparr>handle = 1, connected = False\<rparr>"

definition fresh_handle :: ConnectionPool where
  "fresh_handle = \<lparr>handle = 2, connected = True\<rparr>"

definition ETIMEOUT :: js_error where
  "ETIMEOUT = \<lparr>number = None, message = ''Failed to connect''\<rparr>"

definition servidor_disponible :: world where
  "servidor_disponible = \<lparr>sql_connect = (\<lambda>n. Inr fresh_handle), NODE_ENV = None\<rparr>"

definition servidor_en_pausa :: world where
  "servidor_en_pausa = \<lparr>sql_connect = (\<lambda>n. Inl ETIMEOUT), NODE_ENV = None\<rparr>"

definition servidor_en_pausa_produccion :: world where
  "servidor_en_pausa_produccion = \<lparr>sql_connect = (\<lambda>n. Inl ETIMEOUT), NODE_ENV = Some ''production''\<rparr>"

definition estado_inicial :: state where
  "estado_inicial = \<lparr>pool = None, connects = 0, usuarios = None, identity = 0, trace = []\<rparr>"

definition estado_desconectado :: state where
  "estado_desconectado =
     \<lparr>pool = Some stale_handle, connects = 1, usuarios = Some [], identity = 0, trace = [SqlConnect]\<rparr>"

text \<open>
  Library functions for the examples: an e-mail is anything with an \<^verbatim>\<open>@\<close>,
  normalisation changes nothing, the length is the number of code units.
\<close>

definition lib_ejemplo :: lib where
  "lib_ejemplo = \<lparr>isEmail = (\<lambda>v. 64 \<in> set v), normalizeEmail = (\<lambda>v. v), str_len = length\<rparr>"

definition cuerpo_ana :: body where
  "cuerpo_ana = (\<lambda>c. None)(Nombre \<mapsto> of_ascii ''Ana'', Apellido \<mapsto> of_ascii ''Lopez'',
                               Email \<mapsto> of_ascii ''ana@example.com'')"

definition cuerpo_ana_vacios :: body where
  "cuerpo_ana_vacios = cuerpo_ana(Telefono \<mapsto> [], Pais \<mapsto> [])"

definition cuerpo_r2d2 :: body where
  "cuerpo_r2d2 = cuerpo_ana(Nombre \<mapsto> of_ascii ''R2D2'')"

text \<open>The same registration with blanks around nombre and around the e-mail.\<close>

definition cuerpo_ana_espacios :: body where
  "cuerpo_ana_espacios = cuerpo_ana(Nombre \<mapsto> of_ascii '' Ana '', Email \<mapsto> of_ascii '' ana@example.com '')"

definition params_ana :: insert_params where
  "params_ana = \<lparr>p_nombre = of_ascii ''Ana'', p_apellido = of_ascii ''Lopez'',
                  p_email = of_ascii ''ana@example.com'', p_telefono = None, p_pais = None\<rparr>"

definition ahora :: datetime where
  "ahora = \<lparr>year = 2024, month = 1, day = 31, hour = 10, minute = 0, second = 0, millisecond = 0\<rparr>"

definition fila_ana :: "datetime usuario" where
  "fila_ana =
     \<lparr>id_usuario = 1, nombre = of_ascii ''Ana'', apellido = of_ascii ''Lopez'',
      email = of_ascii ''ana@example.com'', telefono = None, pais = None, fecha_registro = ahora\<rparr>"

definition estado_tabla_vacia :: state where
  "estado_tabla_vacia =
     \<lparr>pool = Some fresh_handle, connects = 1, usuarios = Some [], identity = 0, trace = []\<rparr>"

definition estado_con_ana :: state where
  "estado_con_ana =
     \<lparr>pool = Some fresh_handle, connects = 1, usuarios = Some [fila_ana], identity = 1, trace = []\<rparr>"

text \<open>Two rows registered a day apart, across the end of a month.\<close>

definition fila_enero :: "datetime usuario" where
  "fila_enero =
     \<lparr>id_usuario = 1, nombre = of_ascii ''Ana'', apellido = of_ascii ''Lopez'',
      email = of_ascii ''ana@example.com'', telefono = None, pais = None,
      fecha_registro = \<lparr>year = 2024, month = 1, day = 31, hour = 10, minute = 0, second = 0, millisecond = 0\<rparr>\<rparr>"

definition fila_febrero :: "datetime usuario" where
  "fila_febrero =
     \<lparr>id_usuario = 2, nombre = of_ascii ''Luis'', apellido = of_ascii ''Mora'',
      email = of_ascii ''luis@example.com'', telefono = None, pais = None,
      fecha_registro = \<lparr>year = 2024, month = 2, day = 1, hour = 10, minute = 0, second = 0, millisecond = 0\<rparr>\<rparr>"

definition estado_dos_filas :: state where
  "estado_dos_filas =
     \<lparr>pool = Some fresh_handle, connects = 1, usuarios = Some [fila_enero, fila_febrero],
      identity = 2, trace = []\<rparr>"

section \<open>The retry loop, step by step\<close>

lemma getPool_loop_success:
  assumes "i < maxRetries" and "sql_connect w (connects s) = Inr p"
  shows "getPool_loop w i s =
           (Inr (Some p), s\<lparr>connects := connects s + 1, trace := trace s @ [SqlConnect], pool := Some p\<rparr>)"
  using assms by (subst getPool_loop.simps) simp

lemma getPool_loop_retry:
  assumes "i < maxRetries - 1" and "sql_connect w (connects s) = Inl err"
  shows "getPool_loop w i s =
           getPool_loop w (i + 1)
             (s\<lparr>connects := connects s + 1, pool := None,
                trace := trace s @ [SqlConnect, ConsoleLog (IntentoFallo (i + 1) maxRetries (message err)),
                                    SetTimeout 3000]\<rparr>)"
proof -
  from assms(1) have "i < maxRetries" by simp
  with assms show ?thesis
    by (subst getPool_loop.simps) (simp add: Let_def)
qed

lemma getPool_loop_last:
  assumes "i = maxRetries - 1" and "sql_connect w (connects s) = Inl err"
  shows "getPool_loop w i s =
           (Inl err, s\<lparr>connects := connects s + 1, pool := None,
                trace := trace s @ [SqlConnect, ConsoleLog (IntentoFallo (i + 1) maxRetries (message err))]\<rparr>)"
  using assms by (subst getPool_loop.simps) (simp add: Let_def maxRetries_def)

lemma getPool_loop_done:
  assumes "\<not> i < maxRetries"
  shows "getPool_loop w i s = (Inr (pool s), s)"
  using assms by (subst getPool_loop.simps) simp

lemma getPool_loop_exhausted:
  assumes f0: "sql_connect w (connects s) = Inl e0"
    and f1: "sql_connect w (connects s + 1) = Inl e1"
    and f2: "sql_connect w (connects s + 2) = Inl e2"
  shows "getPool_loop w 0 s =
           (Inl e2, s\<lparr>connects := connects s + 3, pool := None,
              trace := trace s @
                [SqlConnect, ConsoleLog (IntentoFallo 1 3 (message e0)), SetTimeout 3000,
                 SqlConnect, ConsoleLog (IntentoFallo 2 3 (message e1)), SetTimeout 3000,
                 SqlConnect, ConsoleLog (IntentoFallo 3 3 (message e2))]\<rparr>)"
proof -
  let ?s1 = "s\<lparr>connects := connects s + 1, pool := None,
                trace := trace s @ [SqlConnect, ConsoleLog (IntentoFallo (0 + 1) maxRetries (message e0)),
                                    SetTimeout 3000]\<rparr>"
  let ?s2 = "?s1\<lparr>connects := connects ?s1 + 1, pool := None,
                trace := trace ?s1 @ [SqlConnect, ConsoleLog (IntentoFallo (1 + 1) maxRetries (message e1)),
                                    SetTimeout 3000]\<rparr>"
  have a: "getPool_loop w 0 s = getPool_loop w (0 + 1) ?s1"
    using getPool_loop_retry [of 0 w s e0] f0 by (simp add: maxRetries_def numeral_2_eq_2 numeral_3_eq_3)
  have b: "getPool_loop w (0 + 1) ?s1 = getPool_loop w (1 + 1) ?s2"
    using getPool_loop_retry [of 1 w ?s1 e1] f1 by (simp add: maxRetries_def numeral_2_eq_2 numeral_3_eq_3)
  have c: "getPool_loop w (1 + 1) ?s2 =
      (Inl e2, ?s2\<lparr>connects := connects ?s2 + 1, pool := None,
                trace := trace ?s2 @ [SqlConnect, ConsoleLog (IntentoFallo (1 + 1 + 1) maxRetries (message e2))]\<rparr>)"
    using getPool_loop_last [of 2 w ?s2 e2] f2 by (simp add: maxRetries_def numeral_2_eq_2 numeral_3_eq_3)
  show ?thesis
    unfolding a b c by (simp add: maxRetries_def numeral_2_eq_2 numeral_3_eq_3)
qed

text \<open>
  \<open>getPool\<close> only ever connects, logs and sleeps: it leaves the table and the
  identity counter alone, and adds no event of any other kind.
\<close>

lemma getPool_loop_frame:
  assumes "\<not> P SqlConnect" and "\<And>l. \<not> P (ConsoleLog l)" and "\<And>n. \<not> P (SetTimeout n)"
  shows "usuarios (snd (getPool_loop w i s)) = usuarios s
         \<and> identity (snd (getPool_loop w i s)) = identity s
         \<and> filter P (trace (snd (getPool_loop w i s))) = filter P (trace s)"
proof (induction w i s rule: getPool_loop.induct)
  case (1 w i s)
  show ?case
  proof (cases "i < maxRetries")
    case False
    then show ?thesis by (simp add: getPool_loop_done)
  next
    case True
    note lt = this
    show ?thesis
    proof (cases "sql_connect w (connects s)")
      case (Inr p)
      with lt assms show ?thesis by (simp add: getPool_loop_success)
    next
      case (Inl err)
      show ?thesis
      proof (cases "i < maxRetries - 1")
        case False
        with lt have "i = maxRetries - 1" by simp
        with Inl assms show ?thesis by (simp add: getPool_loop_last)
      next
        case True
        from "1.IH" [OF lt refl Inl refl True] Inl True assms
        show ?thesis by (simp add: getPool_loop_retry)
      qed
    qed
  qed
qed

lemma getPool_of_frame:
  assumes "\<not> P SqlConnect" and "\<And>l. \<not> P (ConsoleLog l)" and "\<And>n. \<not> P (SetTimeout n)"
  shows "usuarios (snd (getPool_of m w s)) = usuarios s
         \<and> identity (snd (getPool_of m w s)) = identity s
         \<and> filter P (trace (snd (getPool_of m w s))) = filter P (trace s)"
proof (cases m)
  case Db_js
  with assms show ?thesis
    by (simp add: getPool_db_def Let_def split: option.splits sum.splits)
next
  case Part_000
  have "usuarios (discard_stale s) = usuarios s" "identity (discard_stale s) = identity s"
       "trace (discard_stale s) = trace s"
    by (simp_all add: discard_stale_def split: option.splits)
  with Part_000 getPool_loop_frame [of P w 0 "discard_stale s", OF assms] show ?thesis
    by (simp add: getPool_def Let_def split: option.splits)
qed

lemma getPool_of_usuarios: "usuarios (snd (getPool_of m w s)) = usuarios s"
  using getPool_of_frame [of "\<lambda>e. False" m w s] by simp

lemma getPool_of_identity: "identity (snd (getPool_of m w s)) = identity s"
  using getPool_of_frame [of "\<lambda>e. False" m w s] by simp

lemma getPool_of_no_listen:
  "filter (\<lambda>e. e = AppListen) (trace (snd (getPool_of m w s))) = filter (\<lambda>e. e = AppListen) (trace s)"
  using getPool_of_frame [of "\<lambda>e. e = AppListen" m w s] by simp

section \<open>The connection module: what each of the two does\<close>

text \<open>
  The module of src/unnamed/part_000 drops a handle that reports itself
  disconnected and connects again: one \<^verbatim>\<open>sql.connect\<close>, whose handle is returned
  and cached.
\<close>

lemma getPool_part_000_reconnects:
  assumes "pool s = Some p" and "\<not> connected p" and "sql_connect w (connects s) = Inr q"
  shows "getPool w s =
           (Inr (Some q), s\<lparr>connects := connects s + 1, trace := trace s @ [SqlConnect], pool := Some q\<rparr>)"
  using assms getPool_loop_success [of 0 w "s\<lparr>pool := None\<rparr>" q]
  by (simp add: getPool_def discard_stale_def maxRetries_def)

text \<open>
  With no handle cached and three refusals in a row, the module of
  src/unnamed/part_000 calls \<^verbatim>\<open>sql.connect\<close> three times, waits 3000 ms after the
  first and after the second refusal, and throws the third error.
\<close>

lemma getPool_part_000_exhausted:
  assumes "pool s = None"
    and "sql_connect w (connects s) = Inl e0"
    and "sql_connect w (connects s + 1) = Inl e1"
    and "sql_connect w (connects s + 2) = Inl e2"
  shows "getPool w s =
           (Inl e2, s\<lparr>connects := connects s + 3, pool := None,
              trace := trace s @
                [SqlConnect, ConsoleLog (IntentoFallo 1 3 (message e0)), SetTimeout 3000,
                 SqlConnect, ConsoleLog (IntentoFallo 2 3 (message e1)), SetTimeout 3000,
                 SqlConnect, ConsoleLog (IntentoFallo 3 3 (message e2))]\<rparr>)"
  using assms getPool_loop_exhausted [of w s e0 e1 e2]
  by (simp add: getPool_def discard_stale_def)

text \<open>
  The module of src/db.js returns whatever handle is cached, connected or not, and
  gives up at the first refusal.
\<close>

lemma getPool_db_cached:
  assumes "pool s = Some p"
  shows "getPool_db w s = (Inr (Some p), s)"
  using assms by (simp add: getPool_db_def)

lemma getPool_db_refused:
  assumes "pool s = None" and "sql_connect w (connects s) = Inl err"
  shows "getPool_db w s = (Inl err, s\<lparr>connects := connects s + 1, trace := trace s @ [SqlConnect]\<rparr>)"
  using assms by (simp add: getPool_db_def)

text \<open>
  C2, on src/db.js. The cached handle is \<open>stale_handle\<close>, which reports itself
  disconnected, and the server would accept a connection. \<open>getPool\<close> of src/db.js
  returns the stale handle and makes no connection attempt; \<open>getPool\<close> of
  src/unnamed/part_000, in the same state, connects and returns the new handle.
\<close>

theorem getPool_db_returns_stale_handle:
  "getPool_db servidor_disponible estado_desconectado = (Inr (Some stale_handle), estado_desconectado)
   \<and> \<not> connected stale_handle
   \<and> getPool servidor_disponible estado_desconectado =
       (Inr (Some fresh_handle),
        estado_desconectado\<lparr>connects := 2, trace := [SqlConnect, SqlConnect], pool := Some fresh_handle\<rparr>)"
  using getPool_part_000_reconnects [of estado_desconectado stale_handle servidor_disponible fresh_handle]
  by (simp add: getPool_db_def estado_desconectado_def stale_handle_def servidor_disponible_def)

text \<open>
  C3, on src/db.js. No handle is cached and the server refuses every connection.
  \<open>getPool\<close> of src/db.js calls \<^verbatim>\<open>sql.connect\<close> once, never waits, and throws
  the first error; \<open>getPool\<close> of src/unnamed/part_000, in the same state, makes the
  three attempts with the two waits of 3000 ms.
\<close>

theorem getPool_db_single_attempt:
  "getPool_db servidor_en_pausa estado_inicial =
     (Inl ETIMEOUT, estado_inicial\<lparr>connects := 1, trace := [SqlConnect]\<rparr>)
   \<and> getPool servidor_en_pausa estado_inicial =
     (Inl ETIMEOUT,
      estado_inicial\<lparr>connects := 3, pool := None,
        trace := [SqlConnect, ConsoleLog (IntentoFallo 1 3 ''Failed to connect''), SetTimeout 3000,
                  SqlConnect, ConsoleLog (IntentoFallo 2 3 ''Failed to connect''), SetTimeout 3000,
                  SqlConnect, ConsoleLog (IntentoFallo 3 3 ''Failed to connect'')]\<rparr>)"
  using getPool_part_000_exhausted [of estado_inicial servidor_en_pausa ETIMEOUT ETIMEOUT ETIMEOUT]
  by (simp add: getPool_db_def servidor_en_pausa_def estado_inicial_def ETIMEOUT_def)

text \<open>
  C8. While the cached handle is connected, \<open>getPool\<close> of either module returns
  that handle and leaves the state as it was: no \<^verbatim>\<open>sql.connect\<close> is called and
  nothing is logged. So does every later call: after any number \<open>n\<close> of calls the
  state is still the same.
\<close>

theorem getPool_of_cached:
  assumes "pool s = Some p" and "connected p"
  shows "getPool_of m w s = (Inr (Some p), s)
         \<and> ((\<lambda>t. snd (getPool_of m w t)) ^^ n) s = s"
proof -
  have one: "getPool_of m w s = (Inr (Some p), s)"
    using assms by (cases m) (simp_all add: getPool_def getPool_db_def discard_stale_def)
  then have "((\<lambda>t. snd (getPool_of m w t)) ^^ n) s = s"
    by (induction n) simp_all
  with one show ?thesis by simp
qed

theorem getPool_of_cached_witness:
  "pool estado_tabla_vacia = Some fresh_handle \<and> connected fresh_handle
   \<and> getPool_of Part_000 servidor_en_pausa estado_tabla_vacia = (Inr (Some fresh_handle), estado_tabla_vacia)
   \<and> ((\<lambda>t. snd (getPool_of Part_000 servidor_en_pausa t)) ^^ 3) estado_tabla_vacia = estado_tabla_vacia"
proof -
  have h1: "pool estado_tabla_vacia = Some fresh_handle"
    by (simp add: estado_tabla_vacia_def)
  have h2: "connected fresh_handle"
    by (simp add: fresh_handle_def)
  show ?thesis
    using h1 h2 getPool_of_cached [OF h1 h2, of Part_000 servidor_en_pausa 3] by simp
qed

section \<open>The database engine: insert and listing\<close>

lemma insert_usuario_error:
  assumes "insert_usuario p now ps s = (Inl error, s')"
  shows "usuarios s' = usuarios s"
  using assms by (auto simp: insert_usuario_def Let_def split: if_splits option.splits)

lemma insert_usuario_ok:
  assumes "insert_usuario p now ps s = (Inr n, s')"
  shows "\<exists>rows. usuarios s = Some rows \<and> n = identity s + 1 \<and> p_email ps \<notin> set (map email rows)
           \<and> usuarios s' = Some (rows @
                 [\<lparr>id_usuario = n, nombre = p_nombre ps, apellido = p_apellido ps,
                   email = p_email ps, telefono = p_telefono ps, pais = p_pais ps,
                   fecha_registro = now\<rparr>])"
  using assms by (auto simp: insert_usuario_def Let_def split: if_splits option.splits)

lemma insert_usuario_duplicate:
  assumes "connected p" and "usuarios s = Some rows" and "p_email ps \<in> set (map email rows)"
  shows "insert_usuario p now ps s =
           (Inl (RequestError 2627), s\<lparr>trace := trace s @ [Query], identity := identity s + 1\<rparr>)"
  using assms by (simp add: insert_usuario_def Let_def)

text \<open>
  The listing returns every row of the table, each with its timestamp formatted,
  and the rows are in descending order of the formatted string.
\<close>

lemma mset_order_by_desc: "mset (order_by_desc rows) = mset rows"
  by (simp add: order_by_desc_def)

lemma sorted_order_by_desc: "sorted (rev (map fecha_registro (order_by_desc rows)))"
  by (simp add: order_by_desc_def rev_map)

lemma get_users_ok:
  assumes "getPool_of m w s = (Inr (Some p), s1)" and "connected p" and "usuarios s1 = Some rows"
  shows "get_users m w s =
           (\<lparr>status = 200, json = Listado (length rows) (order_by_desc (map select_row rows))\<rparr>,
            s1\<lparr>trace := trace s1 @ [Query]\<rparr>)"
  using assms by (simp add: get_users_def select_usuarios_def order_by_desc_def)

lemma FORMAT_enero: "FORMAT (fecha_registro fila_enero) = of_ascii ''31/01/2024 10:00''"
  by (simp add: FORMAT_def fila_enero_def digits2_def digits4_def of_ascii_def)

lemma FORMAT_febrero: "FORMAT (fecha_registro fila_febrero) = of_ascii ''01/02/2024 10:00''"
  by (simp add: FORMAT_def fila_febrero_def digits2_def digits4_def of_ascii_def)

lemma order_by_desc_dos_filas:
  "order_by_desc (map select_row [fila_enero, fila_febrero]) = [select_row fila_enero, select_row fila_febrero]"
  by (simp add: order_by_desc_def select_row_def FORMAT_enero FORMAT_febrero of_ascii_def)

text \<open>
  C1. The table holds a row registered on 31 January 2024 at 10:00 and a row
  registered on 1 February 2024 at 10:00. The listing returns both rows, with the
  timestamps formatted as 31/01/2024 10:00 and 01/02/2024 10:00, and the January
  row comes first although the February row is the later one: the sort key is the
  formatted string, which starts with the day.
\<close>

theorem get_users_older_first:
  "get_users m servidor_disponible estado_dos_filas =
     (\<lparr>status = 200, json = Listado 2 [select_row fila_enero, select_row fila_febrero]\<rparr>,
      estado_dos_filas\<lparr>trace := [Query]\<rparr>)
   \<and> fecha_registro (select_row fila_enero) = of_ascii ''31/01/2024 10:00''
   \<and> fecha_registro (select_row fila_febrero) = of_ascii ''01/02/2024 10:00''
   \<and> later_than (fecha_registro fila_febrero) (fecha_registro fila_enero)"
proof -
  have p: "getPool_of m servidor_disponible estado_dos_filas = (Inr (Some fresh_handle), estado_dos_filas)"
    by (cases m) (simp_all add: getPool_def getPool_db_def discard_stale_def estado_dos_filas_def fresh_handle_def)
  have q: "select_usuarios fresh_handle estado_dos_filas =
             (Inr [select_row fila_enero, select_row fila_febrero], estado_dos_filas\<lparr>trace := [Query]\<rparr>)"
    using order_by_desc_dos_filas by (simp add: select_usuarios_def estado_dos_filas_def fresh_handle_def)
  have r: "later_than (fecha_registro fila_febrero) (fecha_registro fila_enero)"
    by (simp add: later_than_def instant_def fila_enero_def fila_febrero_def)
  have f: "fecha_registro (select_row fila_enero) = of_ascii ''31/01/2024 10:00''"
          "fecha_registro (select_row fila_febrero) = of_ascii ''01/02/2024 10:00''"
    by (simp_all add: select_row_def FORMAT_enero FORMAT_febrero)
  show ?thesis
    using r f by (simp add: get_users_def p q)
qed

section \<open>The validation rules\<close>

lemma check_Nil: "check ok m = [] \<longleftrightarrow> ok"
  by (simp add: check_def)

lemma validacionRegistro_errors:
  "snd (validacionRegistro L b) =
     check (isLength L 2 100 (trim (toString (b Nombre)))) NombreLongitud
     @ check (solo_letras (trim (toString (b Nombre)))) NombreLetras
     @ check (isLength L 2 100 (trim (toString (b Apellido)))) ApellidoLongitud
     @ check (solo_letras (trim (toString (b Apellido)))) ApellidoLetras
     @ check (isEmail L (trim (toString (b Email)))) EmailInvalido
     @ check (isLength L 0 255 (normalizeEmail L (trim (toString (b Email))))) EmailLongitud
     @ (if falsy (b Telefono) \<or> trim (toString (b Telefono)) = [] then []
        else check (patron_telefono (trim (toString (b Telefono)))) TelefonoInvalido)
     @ (if falsy (b Pais) \<or> trim (toString (b Pais)) = [] then []
        else check (isLength L 0 100 (trim (toString (b Pais)))) PaisLongitud
             @ check (solo_letras (trim (toString (b Pais)))) PaisLetras)"
  by (simp add: validacionRegistro_def validar_nombre_def validar_apellido_def validar_email_def
      validar_telefono_def validar_pais_def Let_def falsy_def)

lemma validacionRegistro_body:
  "fst (validacionRegistro L b) =
     (\<lambda>c. case c of
        Nombre \<Rightarrow> Some (trim (toString (b Nombre)))
      | Apellido \<Rightarrow> Some (trim (toString (b Apellido)))
      | Email \<Rightarrow> Some (normalizeEmail L (trim (toString (b Email))))
      | Telefono \<Rightarrow> (if falsy (b Telefono) then b Telefono else Some (trim (toString (b Telefono))))
      | Pais \<Rightarrow> (if falsy (b Pais) then b Pais else Some (trim (toString (b Pais)))))"
  by (rule ext)
     (simp add: validacionRegistro_def validar_nombre_def validar_apellido_def validar_email_def
      validar_telefono_def validar_pais_def Let_def split: campo.splits)

text \<open>\<open>trim\<close> keeps every character that is not white space, and trimming twice is trimming once.\<close>

lemma in_set_dropWhile:
  assumes "x \<in> set xs" and "\<not> P x"
  shows "x \<in> set (dropWhile P xs)"
  using assms by (induction xs) auto

lemma in_set_trim:
  assumes "c \<in> set v" and "\<not> js_space c"
  shows "c \<in> set (trim v)"
proof -
  from assms have "c \<in> set (rev (dropWhile js_space v))"
    by (simp add: in_set_dropWhile)
  then have "c \<in> set (dropWhile js_space (rev (dropWhile js_space v)))"
    using assms(2) by (rule in_set_dropWhile)
  then show ?thesis by (simp add: trim_def)
qed

lemma dropWhile_id:
  assumes "xs = [] \<or> \<not> P (hd xs)"
  shows "dropWhile P xs = xs"
  using assms by (cases xs) auto

lemma hd_dropWhile_rev_prefix:
  assumes "u = [] \<or> \<not> P (hd u)"
  shows "rev (dropWhile P (rev u)) = [] \<or> \<not> P (hd (rev (dropWhile P (rev u))))"
proof (cases "rev (dropWhile P (rev u)) = []")
  case True
  then show ?thesis by simp
next
  case False
  have "rev u = takeWhile P (rev u) @ dropWhile P (rev u)" by simp
  then have "u = rev (dropWhile P (rev u)) @ rev (takeWhile P (rev u))"
    by (metis rev_append rev_rev_ident)
  with False have "hd u = hd (rev (dropWhile P (rev u)))"
    by (metis hd_append2)
  moreover from False have "u \<noteq> []" by auto
  ultimately show ?thesis using assms by simp
qed

lemma trim_idem: "trim (trim v) = trim v"
proof -
  let ?u = "dropWhile js_space v"
  have u: "?u = [] \<or> \<not> js_space (hd ?u)"
    using hd_dropWhile [of js_space v] by auto
  have "dropWhile js_space (trim v) = trim v"
    unfolding trim_def using hd_dropWhile_rev_prefix [of ?u js_space, OF u] by (rule dropWhile_id)
  then show ?thesis
    by (simp add: trim_def)
qed

lemma inHTMLData_id:
  assumes "60 \<notin> set v"
  shows "inHTMLData v = v"
  using assms by (induction v) (auto simp: inHTMLData_def)

lemma solo_letras_inHTMLData:
  assumes "solo_letras v"
  shows "inHTMLData v = v"
proof -
  have "\<not> letra 60" by (simp add: letra_def js_space_def)
  with assms have "60 \<notin> set v"
    by (auto simp: solo_letras_def list_all_iff)
  then show ?thesis by (rule inHTMLData_id)
qed

text \<open>A nombre with a character outside the class, a digit or a symbol, is reported.\<close>

lemma nombre_no_letra:
  assumes "b Nombre = Some v" and "c \<in> set v" and "\<not> letra c"
  shows "NombreLetras \<in> set (snd (validacionRegistro L b))"
proof -
  from assms(3) have "\<not> js_space c" by (auto simp: letra_def)
  with assms(2) have "c \<in> set (trim v)" by (rule in_set_trim)
  with assms(3) have "\<not> solo_letras (trim v)"
    by (auto simp: solo_letras_def list_all_iff)
  with assms(1) show ?thesis
    by (simp add: validacionRegistro_errors toString_def check_def)
qed

text \<open>What is inserted and echoed once the rules have passed, in terms of the request.\<close>

lemma sanitizar_validated:
  assumes "validacionRegistro L b = (b', [])"
  shows "sanitizar b' =
           Some \<lparr>p_nombre = trim (toString (b Nombre)), p_apellido = trim (toString (b Apellido)),
                 p_email = inHTMLData (trim (normalizeEmail L (trim (toString (b Email))))),
                 p_telefono = (if trim (toString (b Telefono)) = [] then None
                               else Some (inHTMLData (trim (toString (b Telefono))))),
                 p_pais = (if trim (toString (b Pais)) = [] then None
                           else Some (trim (toString (b Pais))))\<rparr>"
proof -
  from assms have e: "snd (validacionRegistro L b) = []" and b': "b' = fst (validacionRegistro L b)"
    by simp_all
  from e have n: "solo_letras (trim (toString (b Nombre)))"
    and a: "solo_letras (trim (toString (b Apellido)))"
    and p: "trim (toString (b Pais)) \<noteq> [] \<Longrightarrow> solo_letras (trim (toString (b Pais)))"
    by (auto simp: validacionRegistro_errors check_Nil falsy_def toString_def trim_def
        split: if_splits option.splits)
  have f: "falsy v \<Longrightarrow> trim (toString v) = []" for v
    by (auto simp: falsy_def toString_def trim_def split: option.splits)
  have s: "toString (Some x) = x" for x :: jsstring
    by (simp add: toString_def)
  show ?thesis
    using n a p f [of "b Telefono"] f [of "b Pais"]
    by (auto simp: b' validacionRegistro_body sanitizar_def opcional_def trim_idem
        solo_letras_inHTMLData falsy_def s)
qed

section \<open>Concrete requests\<close>

lemma validacion_ana:
  "validacionRegistro lib_ejemplo cuerpo_ana = (fst (validacionRegistro lib_ejemplo cuerpo_ana), [])"
proof -
  have "snd (validacionRegistro lib_ejemplo cuerpo_ana) = []"
    by (simp add: validacionRegistro_errors cuerpo_ana_def toString_def falsy_def of_ascii_def trim_def
        js_space_def lib_ejemplo_def check_def isLength_def solo_letras_def letra_def)
  then show ?thesis
    by (simp add: prod_eq_iff)
qed

lemma sanitizar_ana: "sanitizar (fst (validacionRegistro lib_ejemplo cuerpo_ana)) = Some params_ana"
  by (simp add: validacionRegistro_body sanitizar_def cuerpo_ana_def params_ana_def opcional_def falsy_def
      toString_def of_ascii_def trim_def js_space_def inHTMLData_def lib_ejemplo_def)

lemma validacion_r2d2: "snd (validacionRegistro lib_ejemplo cuerpo_r2d2) = [NombreLetras]"
  by (simp add: validacionRegistro_errors cuerpo_r2d2_def cuerpo_ana_def toString_def falsy_def of_ascii_def
      trim_def js_space_def lib_ejemplo_def check_def isLength_def solo_letras_def letra_def)

lemma getPool_tabla_vacia:
  "getPool_of Part_000 servidor_disponible estado_tabla_vacia = (Inr (Some fresh_handle), estado_tabla_vacia)"
  by (simp add: getPool_def discard_stale_def estado_tabla_vacia_def fresh_handle_def)

lemma getPool_con_ana:
  "getPool_of Part_000 servidor_disponible estado_con_ana = (Inr (Some fresh_handle), estado_con_ana)"
  by (simp add: getPool_def discard_stale_def estado_con_ana_def fresh_handle_def)

lemma insert_tabla_vacia:
  "insert_usuario fresh_handle ahora params_ana estado_tabla_vacia =
     (Inr 1, estado_con_ana\<lparr>trace := [Query]\<rparr>)"
  by (simp add: insert_usuario_def estado_tabla_vacia_def estado_con_ana_def fresh_handle_def params_ana_def
      fila_ana_def Let_def)

lemma insert_con_ana:
  "insert_usuario fresh_handle ahora params_ana estado_con_ana =
     (Inl (RequestError 2627), estado_con_ana\<lparr>trace := [Query], identity := 2\<rparr>)"
  by (simp add: insert_usuario_def estado_con_ana_def fresh_handle_def params_ana_def
      fila_ana_def Let_def)

section \<open>POST /api/users\<close>

text \<open>
  C5. When the validation rules report at least one message, the registration
  answers with status 400 and the list of those messages, and the state is
  untouched: no connection is requested and no statement is sent to the database.
\<close>

theorem post_users_validation_error:
  assumes "snd (validacionRegistro L b) \<noteq> []"
  shows "post_users L m w now s b =
           (\<lparr>status = 400, json = ErrorDeValidacion (snd (validacionRegistro L b))\<rparr>, s)"
  using assms by (cases "validacionRegistro L b") (simp add: post_users_def)

theorem post_users_validation_error_witness:
  "snd (validacionRegistro lib_ejemplo cuerpo_r2d2) \<noteq> []
   \<and> post_users lib_ejemplo Part_000 servidor_disponible ahora estado_tabla_vacia cuerpo_r2d2 =
       (\<lparr>status = 400, json = ErrorDeValidacion [NombreLetras]\<rparr>, estado_tabla_vacia)"
proof -
  have h: "snd (validacionRegistro lib_ejemplo cuerpo_r2d2) \<noteq> []"
    by (simp add: validacion_r2d2)
  show ?thesis
    using h post_users_validation_error [OF h, of Part_000 servidor_disponible ahora estado_tabla_vacia]
    by (simp add: validacion_r2d2)
qed

text \<open>
  C4. When the request passes validation, a handle is obtained and the insert fails
  with error number 2627 or 2601, the registration answers with status 409 and the
  duplicate e-mail message, and the table is the one it was before the request.
\<close>

theorem post_users_duplicate:
  assumes "validacionRegistro L b = (b', [])"
    and "sanitizar b' = Some ps"
    and "getPool_of m w s = (Inr (Some p), s1)"
    and "insert_usuario p now ps s1 = (Inl error, s2)"
    and "number error = Some 2627 \<or> number error = Some 2601"
  shows "post_users L m w now s b = (\<lparr>status = 409, json = CorreoYaRegistrado\<rparr>, s2)
         \<and> usuarios s2 = usuarios s"
proof -
  have "usuarios s1 = usuarios s"
    using getPool_of_usuarios [of m w s] assms(3) by simp
  moreover have "usuarios s2 = usuarios s1"
    using assms(4) by (rule insert_usuario_error)
  moreover have "post_users L m w now s b = (\<lparr>status = 409, json = CorreoYaRegistrado\<rparr>, s2)"
    using assms by (auto simp: post_users_def post_catch_def)
  ultimately show ?thesis by simp
qed

theorem post_users_duplicate_witness:
  "post_users lib_ejemplo Part_000 servidor_disponible ahora estado_con_ana cuerpo_ana =
     (\<lparr>status = 409, json = CorreoYaRegistrado\<rparr>, estado_con_ana\<lparr>trace := [Query], identity := 2\<rparr>)
   \<and> usuarios (estado_con_ana\<lparr>trace := [Query], identity := 2\<rparr>) = Some [fila_ana]"
proof -
  have n: "number (RequestError 2627) = Some 2627 \<or> number (RequestError 2627) = Some 2601"
    by (simp add: RequestError_def)
  show ?thesis
    using post_users_duplicate [OF validacion_ana sanitizar_ana getPool_con_ana insert_con_ana n]
    by (simp add: estado_con_ana_def)
qed

text \<open>
  C6, as amended. When the request passes validation, a handle is obtained and the
  insert succeeds with the new identity value \<open>n\<close>, the registration answers with
  status 201 and a body that holds \<open>n\<close> together with nombre, apellido and email as
  they were inserted: nombre and apellido of the request trimmed, the e-mail of the
  request trimmed, normalised and escaped. \<open>n\<close> is the identity counter plus one,
  and the table has gained exactly the row with that identifier and those values.
\<close>

theorem post_users_created:
  assumes "validacionRegistro L b = (b', [])"
    and "sanitizar b' = Some ps"
    and "getPool_of m w s = (Inr (Some p), s1)"
    and "insert_usuario p now ps s1 = (Inr n, s2)"
  shows "post_users L m w now s b =
           (\<lparr>status = 201, json = UsuarioRegistrado n (p_nombre ps) (p_apellido ps) (p_email ps)\<rparr>, s2)
         \<and> p_nombre ps = trim (toString (b Nombre))
         \<and> p_apellido ps = trim (toString (b Apellido))
         \<and> p_email ps = inHTMLData (trim (normalizeEmail L (trim (toString (b Email)))))
         \<and> n = identity s + 1
         \<and> (\<exists>rows. usuarios s = Some rows
               \<and> usuarios s2 = Some (rows @
                    [\<lparr>id_usuario = n, nombre = p_nombre ps, apellido = p_apellido ps,
                      email = p_email ps, telefono = p_telefono ps, pais = p_pais ps,
                      fecha_registro = now\<rparr>]))"
proof -
  have r: "post_users L m w now s b =
             (\<lparr>status = 201, json = UsuarioRegistrado n (p_nombre ps) (p_apellido ps) (p_email ps)\<rparr>, s2)"
    using assms by (simp add: post_users_def)
  have f: "p_nombre ps = trim (toString (b Nombre))" "p_apellido ps = trim (toString (b Apellido))"
          "p_email ps = inHTMLData (trim (normalizeEmail L (trim (toString (b Email)))))"
    using sanitizar_validated [OF assms(1)] assms(2) by auto
  have u: "usuarios s1 = usuarios s" and i: "identity s1 = identity s"
    using getPool_of_usuarios [of m w s] getPool_of_identity [of m w s] assms(3) by simp_all
  from insert_usuario_ok [OF assms(4)] u i
  have t: "n = identity s + 1"
    and "\<exists>rows. usuarios s = Some rows
               \<and> usuarios s2 = Some (rows @
                    [\<lparr>id_usuario = n, nombre = p_nombre ps, apellido = p_apellido ps,
                      email = p_email ps, telefono = p_telefono ps, pais = p_pais ps,
                      fecha_registro = now\<rparr>])"
    by auto
  with r f show ?thesis by simp
qed

theorem post_users_created_witness:
  "post_users lib_ejemplo Part_000 servidor_disponible ahora estado_tabla_vacia cuerpo_ana =
     (\<lparr>status = 201,
       json = UsuarioRegistrado 1 (of_ascii ''Ana'') (of_ascii ''Lopez'') (of_ascii ''ana@example.com'')\<rparr>,
      estado_con_ana\<lparr>trace := [Query]\<rparr>)
   \<and> usuarios (estado_con_ana\<lparr>trace := [Query]\<rparr>) = Some [fila_ana]"
  using post_users_created [OF validacion_ana sanitizar_ana getPool_tabla_vacia insert_tabla_vacia]
  by (simp add: params_ana_def estado_con_ana_def)

text \<open>
  C6, as first stated: the body of the 201 response holds the fields of the request.
  It does not. The request sends nombre and the e-mail with a blank on each side;
  the registration succeeds with status 201 and its body holds both without the
  blanks, the values that were inserted, which are not the values of the request.
\<close>

theorem post_users_not_echo_counterexample:
  "cuerpo_ana_espacios Nombre = Some (of_ascii '' Ana '')
   \<and> cuerpo_ana_espacios Email = Some (of_ascii '' ana@example.com '')
   \<and> post_users lib_ejemplo Part_000 servidor_disponible ahora estado_tabla_vacia cuerpo_ana_espacios =
       (\<lparr>status = 201,
         json = UsuarioRegistrado 1 (of_ascii ''Ana'') (of_ascii ''Lopez'') (of_ascii ''ana@example.com'')\<rparr>,
        estado_con_ana\<lparr>trace := [Query]\<rparr>)
   \<and> of_ascii ''Ana'' \<noteq> of_ascii '' Ana ''
   \<and> of_ascii ''ana@example.com'' \<noteq> of_ascii '' ana@example.com ''"
proof -
  have b: "cuerpo_ana_espacios Nombre = Some (of_ascii '' Ana '')"
    "cuerpo_ana_espacios Email = Some (of_ascii '' ana@example.com '')"
    by (simp_all add: cuerpo_ana_espacios_def)
  have e: "snd (validacionRegistro lib_ejemplo cuerpo_ana_espacios) = []"
    by (simp add: validacionRegistro_errors cuerpo_ana_espacios_def cuerpo_ana_def toString_def falsy_def
        of_ascii_def trim_def js_space_def lib_ejemplo_def check_def isLength_def solo_letras_def letra_def)
  have z: "sanitizar (fst (validacionRegistro lib_ejemplo cuerpo_ana_espacios)) = Some params_ana"
    by (simp add: validacionRegistro_body sanitizar_def cuerpo_ana_espacios_def cuerpo_ana_def params_ana_def
        opcional_def falsy_def toString_def of_ascii_def trim_def js_space_def inHTMLData_def lib_ejemplo_def)
  have g: "getPool servidor_disponible estado_tabla_vacia = (Inr (Some fresh_handle), estado_tabla_vacia)"
    using getPool_tabla_vacia by simp
  have r: "post_users lib_ejemplo Part_000 servidor_disponible ahora estado_tabla_vacia cuerpo_ana_espacios =
       (\<lparr>status = 201,
         json = UsuarioRegistrado 1 (of_ascii ''Ana'') (of_ascii ''Lopez'') (of_ascii ''ana@example.com'')\<rparr>,
        estado_con_ana\<lparr>trace := [Query]\<rparr>)"
    by (simp add: post_users_def split_beta e z g insert_tabla_vacia) (simp add: params_ana_def)
  have d: "of_ascii ''Ana'' \<noteq> of_ascii '' Ana ''"
    "of_ascii ''ana@example.com'' \<noteq> of_ascii '' ana@example.com ''"
    by (simp_all add: of_ascii_def)
  from b r d show ?thesis by simp
qed

text \<open>
  C10. A telefono that is falsy (absent, or present and empty) raises no message,
  reaches the insert as NULL, and the whole registration behaves as it does on the
  request without the field; the same holds for pais.
\<close>

theorem post_users_falsy_optional:
  "(falsy (b Telefono) \<longrightarrow>
      TelefonoInvalido \<notin> set (snd (validacionRegistro L b))
      \<and> (\<forall>ps. sanitizar (fst (validacionRegistro L b)) = Some ps \<longrightarrow> p_telefono ps = None)
      \<and> post_users L m w now s b = post_users L m w now s (b(Telefono := None)))
   \<and> (falsy (b Pais) \<longrightarrow>
      PaisLongitud \<notin> set (snd (validacionRegistro L b))
      \<and> PaisLetras \<notin> set (snd (validacionRegistro L b))
      \<and> (\<forall>ps. sanitizar (fst (validacionRegistro L b)) = Some ps \<longrightarrow> p_pais ps = None)
      \<and> post_users L m w now s b = post_users L m w now s (b(Pais := None)))"
proof -
  have tel: "post_users L m w now s b = post_users L m w now s (b(Telefono := None))" if f: "falsy (b Telefono)"
  proof -
    have "snd (validacionRegistro L (b(Telefono := None))) = snd (validacionRegistro L b)"
      using f by (simp add: validacionRegistro_errors falsy_def)
    moreover have "sanitizar (fst (validacionRegistro L (b(Telefono := None)))) = sanitizar (fst (validacionRegistro L b))"
      using f by (simp add: validacionRegistro_body sanitizar_def opcional_def falsy_def)
    ultimately show ?thesis
      by (simp add: post_users_def split_beta)
  qed
  have pais: "post_users L m w now s b = post_users L m w now s (b(Pais := None))" if f: "falsy (b Pais)"
  proof -
    have "snd (validacionRegistro L (b(Pais := None))) = snd (validacionRegistro L b)"
      using f by (simp add: validacionRegistro_errors falsy_def)
    moreover have "sanitizar (fst (validacionRegistro L (b(Pais := None)))) = sanitizar (fst (validacionRegistro L b))"
      using f by (simp add: validacionRegistro_body sanitizar_def opcional_def falsy_def)
    ultimately show ?thesis
      by (simp add: post_users_def split_beta)
  qed
  have e1: "TelefonoInvalido \<notin> set (snd (validacionRegistro L b))" if "falsy (b Telefono)"
    using that by (simp add: validacionRegistro_errors check_def)
  have e2: "PaisLongitud \<notin> set (snd (validacionRegistro L b)) \<and> PaisLetras \<notin> set (snd (validacionRegistro L b))"
    if "falsy (b Pais)"
    using that by (simp add: validacionRegistro_errors check_def)
  have n1: "p_telefono ps = None" if "falsy (b Telefono)" "sanitizar (fst (validacionRegistro L b)) = Some ps" for ps
    using that by (auto simp: validacionRegistro_body sanitizar_def opcional_def)
  have n2: "p_pais ps = None" if "falsy (b Pais)" "sanitizar (fst (validacionRegistro L b)) = Some ps" for ps
    using that by (auto simp: validacionRegistro_body sanitizar_def opcional_def)
  show ?thesis
    using tel pais e1 e2 n1 n2 by blast
qed

lemma post_users_ana_vacios:
  "post_users lib_ejemplo Part_000 servidor_disponible ahora estado_tabla_vacia cuerpo_ana_vacios =
     (\<lparr>status = 201,
       json = UsuarioRegistrado 1 (of_ascii ''Ana'') (of_ascii ''Lopez'') (of_ascii ''ana@example.com'')\<rparr>,
      estado_con_ana\<lparr>trace := [Query]\<rparr>)"
proof -
  have e: "snd (validacionRegistro lib_ejemplo cuerpo_ana_vacios) = []"
    by (simp add: validacionRegistro_errors cuerpo_ana_vacios_def cuerpo_ana_def toString_def falsy_def
        of_ascii_def trim_def js_space_def lib_ejemplo_def check_def isLength_def solo_letras_def letra_def)
  have z: "sanitizar (fst (validacionRegistro lib_ejemplo cuerpo_ana_vacios)) = Some params_ana"
    by (simp add: validacionRegistro_body sanitizar_def cuerpo_ana_vacios_def cuerpo_ana_def params_ana_def
        opcional_def falsy_def toString_def of_ascii_def trim_def js_space_def inHTMLData_def lib_ejemplo_def)
  have g: "getPool servidor_disponible estado_tabla_vacia = (Inr (Some fresh_handle), estado_tabla_vacia)"
    using getPool_tabla_vacia by simp
  show ?thesis
    by (simp add: post_users_def split_beta e z g insert_tabla_vacia) (simp add: params_ana_def)
qed

theorem post_users_falsy_optional_witness:
  "falsy (cuerpo_ana_vacios Telefono) \<and> falsy (cuerpo_ana_vacios Pais)
   \<and> cuerpo_ana_vacios Telefono = Some [] \<and> cuerpo_ana_vacios Pais = Some []
   \<and> TelefonoInvalido \<notin> set (snd (validacionRegistro lib_ejemplo cuerpo_ana_vacios))
   \<and> PaisLetras \<notin> set (snd (validacionRegistro lib_ejemplo cuerpo_ana_vacios))
   \<and> post_users lib_ejemplo Part_000 servidor_disponible ahora estado_tabla_vacia
         (cuerpo_ana_vacios(Telefono := None))
       = (\<lparr>status = 201,
           json = UsuarioRegistrado 1 (of_ascii ''Ana'') (of_ascii ''Lopez'') (of_ascii ''ana@example.com'')\<rparr>,
          estado_con_ana\<lparr>trace := [Query]\<rparr>)
   \<and> post_users lib_ejemplo Part_000 servidor_disponible ahora estado_tabla_vacia
         (cuerpo_ana_vacios(Pais := None))
       = (\<lparr>status = 201,
           json = UsuarioRegistrado 1 (of_ascii ''Ana'') (of_ascii ''Lopez'') (of_ascii ''ana@example.com'')\<rparr>,
          estado_con_ana\<lparr>trace := [Query]\<rparr>)
   \<and> usuarios (estado_con_ana\<lparr>trace := [Query]\<rparr>) = Some [fila_ana]
   \<and> telefono fila_ana = None \<and> pais fila_ana = None"
proof -
  have h: "cuerpo_ana_vacios Telefono = Some []" "cuerpo_ana_vacios Pais = Some []"
    "falsy (cuerpo_ana_vacios Telefono)" "falsy (cuerpo_ana_vacios Pais)"
    by (simp_all add: cuerpo_ana_vacios_def falsy_def)
  have r: "usuarios (estado_con_ana\<lparr>trace := [Query]\<rparr>) = Some [fila_ana]"
    "telefono fila_ana = None" "pais fila_ana = None"
    by (simp_all add: estado_con_ana_def fila_ana_def)
  show ?thesis
    using h r post_users_ana_vacios
      post_users_falsy_optional [of cuerpo_ana_vacios lib_ejemplo Part_000 servidor_disponible ahora
        estado_tabla_vacia]
    by metis
qed

section \<open>startServer\<close>

lemma create_table_no_listen:
  "filter (\<lambda>e. e = AppListen) (trace (snd (create_table p t))) = filter (\<lambda>e. e = AppListen) (trace t)"
  by (simp add: create_table_def Let_def split: option.splits)

lemma inicializar_no_listen:
  "filter (\<lambda>e. e = AppListen) (trace (snd (inicializar m w s))) = filter (\<lambda>e. e = AppListen) (trace s)"
proof -
  obtain r1 s1 where g1: "getPool_of m w s = (r1, s1)"
    by (cases "getPool_of m w s")
  let ?s2 = "s1\<lparr>trace := trace s1 @ [ConsoleLog ConexionEstablecida]\<rparr>"
  obtain r3 s3 where g3: "getPool_of m w ?s2 = (r3, s3)"
    by (cases "getPool_of m w ?s2")
  have t1: "filter (\<lambda>e. e = AppListen) (trace s1) = filter (\<lambda>e. e = AppListen) (trace s)"
    using getPool_of_no_listen [of m w s] g1 by simp
  have t3: "filter (\<lambda>e. e = AppListen) (trace s3) = filter (\<lambda>e. e = AppListen) (trace s)"
    using getPool_of_no_listen [of m w ?s2] g3 t1 by simp
  show ?thesis
  proof (cases r1)
    case (Inl e)
    with g1 t1 show ?thesis by (simp add: inicializar_def)
  next
    case (Inr h1)
    note r1 = this
    show ?thesis
    proof (cases r3)
      case (Inl e)
      with g1 r1 g3 t3 show ?thesis by (simp add: inicializar_def)
    next
      case (Inr h3)
      show ?thesis
      proof (cases h3)
        case None
        with g1 r1 g3 Inr t3 show ?thesis by (simp add: inicializar_def)
      next
        case (Some p)
        obtain r4 s4 where c4: "create_table p s3 = (r4, s4)"
          by (cases "create_table p s3")
        have t4: "filter (\<lambda>e. e = AppListen) (trace s4) = filter (\<lambda>e. e = AppListen) (trace s)"
          using create_table_no_listen [of p s3] c4 t3 by simp
        from g1 r1 g3 Inr Some c4 t4 show ?thesis
          by (cases r4) (simp_all add: inicializar_def)
      qed
    qed
  qed
qed

lemma inicializar_en_pausa:
  assumes "sql_connect w = (\<lambda>n. Inl ETIMEOUT)"
  shows "inicializar Part_000 w estado_inicial =
     (Inl ETIMEOUT,
      estado_inicial\<lparr>connects := 3, pool := None,
        trace := [SqlConnect, ConsoleLog (IntentoFallo 1 3 ''Failed to connect''), SetTimeout 3000,
                  SqlConnect, ConsoleLog (IntentoFallo 2 3 ''Failed to connect''), SetTimeout 3000,
                  SqlConnect, ConsoleLog (IntentoFallo 3 3 ''Failed to connect'')]\<rparr>)"
  using assms getPool_part_000_exhausted [of estado_inicial w ETIMEOUT ETIMEOUT ETIMEOUT]
  by (simp add: inicializar_def estado_inicial_def ETIMEOUT_def)

text \<open>
  C7. When the initialisation fails and \<^verbatim>\<open>NODE_ENV\<close> is \<^verbatim>\<open>production\<close>,
  \<open>startServer\<close> logs the error and then calls \<^verbatim>\<open>app.listen\<close>: these are the last
  two events, and the trace holds one \<open>AppListen\<close> more than before.
\<close>

theorem startServer_production:
  assumes "fst (inicializar m w s) = Inl error" and "NODE_ENV w = Some ''production''"
  shows "trace (startServer m w s) =
           trace (snd (inicializar m w s)) @ [ConsoleLog (ErrorAlIniciar (message error)), AppListen]
         \<and> filter (\<lambda>e. e = AppListen) (trace (startServer m w s))
             = filter (\<lambda>e. e = AppListen) (trace s) @ [AppListen]"
proof -
  have "trace (startServer m w s) =
           trace (snd (inicializar m w s)) @ [ConsoleLog (ErrorAlIniciar (message error)), AppListen]"
    using assms by (cases "inicializar m w s") (simp add: startServer_def Let_def)
  then show ?thesis
    using inicializar_no_listen [of m w s] by simp
qed

theorem startServer_production_witness:
  "fst (inicializar Part_000 servidor_en_pausa_produccion estado_inicial) = Inl ETIMEOUT
   \<and> NODE_ENV servidor_en_pausa_produccion = Some ''production''
   \<and> trace (startServer Part_000 servidor_en_pausa_produccion estado_inicial) =
       [SqlConnect, ConsoleLog (IntentoFallo 1 3 ''Failed to connect''), SetTimeout 3000,
        SqlConnect, ConsoleLog (IntentoFallo 2 3 ''Failed to connect''), SetTimeout 3000,
        SqlConnect, ConsoleLog (IntentoFallo 3 3 ''Failed to connect''),
        ConsoleLog (ErrorAlIniciar ''Failed to connect''), AppListen]"
proof -
  have c: "sql_connect servidor_en_pausa_produccion = (\<lambda>n. Inl ETIMEOUT)"
    by (simp add: servidor_en_pausa_produccion_def)
  have h1: "fst (inicializar Part_000 servidor_en_pausa_produccion estado_inicial) = Inl ETIMEOUT"
    by (simp add: inicializar_en_pausa [OF c])
  have h2: "NODE_ENV servidor_en_pausa_produccion = Some ''production''"
    by (simp add: servidor_en_pausa_produccion_def)
  show ?thesis
    using h1 h2 startServer_production [OF h1 h2]
    by (simp add: inicializar_en_pausa [OF c] ETIMEOUT_def)
qed

text \<open>
  C9. When the initialisation fails and \<^verbatim>\<open>NODE_ENV\<close> is not \<^verbatim>\<open>production\<close>,
  \<open>startServer\<close> logs the error, which is its last event, and returns:
  \<^verbatim>\<open>app.listen\<close> is not called, the trace holds as many \<open>AppListen\<close> as before.
\<close>

theorem startServer_not_production:
  assumes "fst (inicializar m w s) = Inl error" and "NODE_ENV w \<noteq> Some ''production''"
  shows "trace (startServer m w s) =
           trace (snd (inicializar m w s)) @ [ConsoleLog (ErrorAlIniciar (message error))]
         \<and> filter (\<lambda>e. e = AppListen) (trace (startServer m w s)) = filter (\<lambda>e. e = AppListen) (trace s)"
proof -
  have "trace (startServer m w s) =
           trace (snd (inicializar m w s)) @ [ConsoleLog (ErrorAlIniciar (message error))]"
    using assms by (cases "inicializar m w s") (simp add: startServer_def Let_def)
  then show ?thesis
    using inicializar_no_listen [of m w s] by simp
qed

theorem startServer_not_production_witness:
  "fst (inicializar Part_000 servidor_en_pausa estado_inicial) = Inl ETIMEOUT
   \<and> NODE_ENV servidor_en_pausa \<noteq> Some ''production''
   \<and> trace (startServer Part_000 servidor_en_pausa estado_inicial) =
       [SqlConnect, ConsoleLog (IntentoFallo 1 3 ''Failed to connect''), SetTimeout 3000,
        SqlConnect, ConsoleLog (IntentoFallo 2 3 ''Failed to connect''), SetTimeout 3000,
        SqlConnect, ConsoleLog (IntentoFallo 3 3 ''Failed to connect''),
        ConsoleLog (ErrorAlIniciar ''Failed to connect'')]
   \<and> filter (\<lambda>e. e = AppListen) (trace (startServer Part_000 servidor_en_pausa estado_inicial)) = []"
proof -
  have c: "sql_connect servidor_en_pausa = (\<lambda>n. Inl ETIMEOUT)"
    by (simp add: servidor_en_pausa_def)
  have h1: "fst (inicializar Part_000 servidor_en_pausa estado_inicial) = Inl ETIMEOUT"
    by (simp add: inicializar_en_pausa [OF c])
  have h2: "NODE_ENV servidor_en_pausa \<noteq> Some ''production''"
    by (simp add: servidor_en_pausa_def)
  have t: "trace estado_inicial = []"
    by (simp add: estado_inicial_def)
  show ?thesis
    using h1 h2 startServer_not_production [OF h1 h2]
    by (simp add: inicializar_en_pausa [OF c] ETIMEOUT_def t)
qed

end
